theory Spec2Isabelle
  imports Main "HOL-Library.Sublist"
begin

section \<open>The test-email service of \<open>main.py\<close>\<close>

text \<open>
  A Python \<open>str\<close> is modelled as \<open>string\<close>. The source only concatenates strings and
  tests them for emptiness, so the UTF-8 bytes of a text behave as its code points do;
  the four non-ASCII characters of the source (the pictographs in front of the two fixed
  subjects and of the log lines) are written as their UTF-8 bytes.

  \<open>print\<close> writes a line to standard output, recorded as the effect \<open>Print\<close>. Like
  every call it can raise (a closed pipe, a stream that cannot encode the line), and
  each \<open>print\<close> of the source stands where its exception matters: inside a \<open>try\<close>, or
  inside an \<open>except\<close> clause in front of the \<open>return\<close> or the \<open>raise\<close>. The standard
  output of a run is therefore a parameter of the two functions that print.
\<close>

subsection \<open>Data model\<close>

text \<open>
  \<open>TestEmailRequest\<close> (lines 18-23). At run time \<open>email_type\<close> is a plain string; the
  \<open>Literal\<close> annotation is the constraint \<open>email_type_Literal\<close> that schema validation
  checks, so the handler's last \<open>else\<close> branch stays part of the model.
\<close>

record TestEmailRequest =
  to_email :: string
  email_type :: string
  subject :: "string option"
  text_content :: "string option"
  html_content :: "string option"

text \<open>\<open>SuccessResponse\<close> (lines 26-28).\<close>

record SuccessResponse =
  success :: bool
  message :: string

text \<open>
  Exceptions. \<open>HTTPException\<close> carries \<open>status_code\<close> and \<open>detail\<close>; \<open>Exception m\<close> is
  any other instance of Python's \<open>Exception\<close>, with \<open>m\<close> its \<open>str(e)\<close>.
\<close>

datatype exn = HTTPException nat string | Exception string

text \<open>The multipart message that \<open>send_email_gmail\<close> builds (lines 83-92).\<close>

record OutboundMessage =
  From :: string
  To :: string
  Subject :: string
  parts :: "(string \<times> string) list"

text \<open>What a call does to the outside world, in the order it happens.\<close>

datatype effect =
    Print string
  | Dispatch string string string string
  | SMTP_connect string nat nat
  | SMTP_starttls
  | SMTP_login "string option" "string option"
  | SMTP_send_message OutboundMessage
  | SMTP_quit

text \<open>
  The standard output: for a line, \<open>None\<close> when \<open>print\<close> returns and \<open>Some m\<close> when it
  raises an \<open>Exception\<close> whose \<open>str\<close> is \<open>m\<close>.
\<close>

type_synonym stdout = "string \<Rightarrow> string option"

subsection \<open>Template builders (lines 31-76)\<close>

definition get_verification_email_text :: "string \<Rightarrow> string" where
  "get_verification_email_text link =
     ''\<newline>    Verify Your Email\<newline>\<newline>    Please click the following link to verify your email address:\<newline>    ''
     @ link @
     ''\<newline>\<newline>    If you did not request this, please ignore this email.\<newline>    ''"

definition get_verification_email_html :: "string \<Rightarrow> string" where
  "get_verification_email_html link =
     ''\<newline>    <html>\<newline>        <body>\<newline>            <h2>Verify Your Email</h2>\<newline>            <p>Please click the button below to verify your email address:</p>\<newline>            <a href=\"''
     @ link @
     ''\" style=\"background-color: #4CAF50; color: white; padding: 14px 20px; text-decoration: none; border-radius: 4px; display: inline-block;\">Verify Email</a>\<newline>            <p>If you did not request this, please ignore this email.</p>\<newline>        </body>\<newline>    </html>\<newline>    ''"

definition get_password_reset_email_text :: "string \<Rightarrow> string" where
  "get_password_reset_email_text link =
     ''\<newline>    Password Reset Request\<newline>\<newline>    Please click the following link to reset your password:\<newline>    ''
     @ link @
     ''\<newline>\<newline>    If you did not request this, please ignore this email.\<newline>    ''"

definition get_password_reset_email_html :: "string \<Rightarrow> string" where
  "get_password_reset_email_html link =
     ''\<newline>    <html>\<newline>        <body>\<newline>            <h2>Password Reset Request</h2>\<newline>            <p>Please click the button below to reset your password:</p>\<newline>            <a href=\"''
     @ link @
     ''\" style=\"background-color: #f44336; color: white; padding: 14px 20px; text-decoration: none; border-radius: 4px; display: inline-block;\">Reset Password</a>\<newline>            <p>If you did not request this, please ignore this email.</p>\<newline>        </body>\<newline>    </html>\<newline>    ''"

subsection \<open>Mail dispatcher: \<open>send_email_gmail\<close> (lines 79-108)\<close>

text \<open>
  The process-wide credentials (lines 14-15); \<open>os.getenv\<close> gives \<open>None\<close> for a variable
  that is not set, and an f-string prints \<open>None\<close> as the text \<open>None\<close>.
\<close>

record config =
  GMAIL_USER :: "string option"
  GMAIL_APP_PASSWORD :: "string option"

fun fstr :: "string option \<Rightarrow> string" where
  "fstr None = ''None''"
| "fstr (Some s) = s"

text \<open>
  The \<open>email\<close> and \<open>smtplib\<close> packages are not part of the repository. Their behaviour
  in one call is a parameter: for each library call, \<open>None\<close> when it returns normally
  and \<open>Some m\<close> when it raises an \<open>Exception\<close> whose \<open>str\<close> is \<open>m\<close>.
\<close>

record smtp_env =
  mime :: "OutboundMessage \<Rightarrow> string option"
  connect :: "string \<Rightarrow> nat \<Rightarrow> nat \<Rightarrow> string option"
  starttls :: "string option"
  login :: "string option \<Rightarrow> string option \<Rightarrow> string option"
  send_message :: "OutboundMessage \<Rightarrow> string option"
  quit :: "string option"

text \<open>
  Lines 83-92: the \<open>alternative\<close> multipart message with its three headers and the
  two attached parts, plain text first.
\<close>

definition build_message :: "config \<Rightarrow> string \<Rightarrow> string \<Rightarrow> string \<Rightarrow> string \<Rightarrow> OutboundMessage" where
  "build_message cfg to_addr subj text html =
     \<lparr>From = ''Medical Advisor <'' @ fstr (GMAIL_USER cfg) @ ''>'',
      To = to_addr, Subject = subj,
      parts = [(''plain'', text), (''html'', html)]\<rparr>"

text \<open>The two log lines of the dispatcher (lines 103 and 107).\<close>

definition log_sent :: "string \<Rightarrow> string" where
  "log_sent to_addr = [CHR 0xE2, CHR 0x9C, CHR 0x93] @ '' Email sent successfully to '' @ to_addr"

definition log_failed :: "string \<Rightarrow> string" where
  "log_failed m = [CHR 0xE2, CHR 0x9D, CHR 0x8C] @ '' Failed to send email: '' @ m"

text \<open>
  The body of the \<open>try\<close> (lines 83-104): the first call that raises ends it, the
  \<open>print\<close> of line 103 included. The result is \<open>Inl m\<close> for the exception raised, or
  \<open>Inr True\<close>, with the effects up to that point (the failing call included).
\<close>

definition send_email_gmail_try ::
  "stdout \<Rightarrow> config \<Rightarrow> smtp_env \<Rightarrow> string \<Rightarrow> string \<Rightarrow> string \<Rightarrow> string \<Rightarrow>
   (string + bool) \<times> effect list" where
  "send_email_gmail_try out cfg env to_addr subj text html =
     (let msg = build_message cfg to_addr subj text html;
          e1 = [SMTP_connect ''smtp.gmail.com'' 587 10];
          e2 = e1 @ [SMTP_starttls];
          e3 = e2 @ [SMTP_login (GMAIL_USER cfg) (GMAIL_APP_PASSWORD cfg)];
          e4 = e3 @ [SMTP_send_message msg];
          e5 = e4 @ [SMTP_quit]
      in case mime env msg of Some m \<Rightarrow> (Inl m, [])
         | None \<Rightarrow>
        (case connect env ''smtp.gmail.com'' 587 10 of Some m \<Rightarrow> (Inl m, e1)
         | None \<Rightarrow>
        (case starttls env of Some m \<Rightarrow> (Inl m, e2)
         | None \<Rightarrow>
        (case login env (GMAIL_USER cfg) (GMAIL_APP_PASSWORD cfg) of Some m \<Rightarrow> (Inl m, e3)
         | None \<Rightarrow>
        (case send_message env msg of Some m \<Rightarrow> (Inl m, e4)
         | None \<Rightarrow>
        (case quit env of Some m \<Rightarrow> (Inl m, e5)
         | None \<Rightarrow>
        (case out (log_sent to_addr) of Some m \<Rightarrow> (Inl m, e5 @ [Print (log_sent to_addr)])
         | None \<Rightarrow>
           (Inr True, e5 @ [Print (log_sent to_addr)]))))))))"

text \<open>
  The whole function: \<open>except Exception as e\<close> (lines 106-108) prints the failure line
  and then returns \<open>False\<close>. The \<open>print\<close> of line 107 stands inside the \<open>except\<close> clause,
  so an exception that it raises is not caught: it leaves the function (\<open>Inl\<close>) and the
  \<open>return False\<close> of line 108 is not reached.
\<close>

definition send_email_gmail ::
  "stdout \<Rightarrow> config \<Rightarrow> smtp_env \<Rightarrow> string \<Rightarrow> string \<Rightarrow> string \<Rightarrow> string \<Rightarrow>
   (exn + bool) \<times> effect list" where
  "send_email_gmail out cfg env to_addr subj text html =
     (case send_email_gmail_try out cfg env to_addr subj text html of
        (Inr b, effs) \<Rightarrow> (Inr b, effs)
      | (Inl m, effs) \<Rightarrow>
          (case out (log_failed m) of
             Some m' \<Rightarrow> (Inl (Exception m'), effs @ [Print (log_failed m)])
           | None \<Rightarrow> (Inr False, effs @ [Print (log_failed m)])))"

text \<open>The network calls among the effects of a call.\<close>

fun is_network :: "effect \<Rightarrow> bool" where
  "is_network (Print _) = False"
| "is_network (Dispatch _ _ _ _) = False"
| "is_network _ = True"

subsection \<open>Request handler: \<open>test_email\<close> (lines 111-199)\<close>

text \<open>Python's truth value of an \<open>Optional[str]\<close>: \<open>None\<close> and the empty string are false.\<close>

fun truthy :: "string option \<Rightarrow> bool" where
  "truthy None = False"
| "truthy (Some s) = (s \<noteq> [])"

text \<open>
  The \<open>if\<close>/\<open>elif\<close> chain that selects subject, text and HTML (lines 142-169): \<open>Inl\<close> the
  exception it raises, \<open>Inr\<close> the three values otherwise.
\<close>

definition email_content :: "TestEmailRequest \<Rightarrow> exn + string \<times> string \<times> string" where
  "email_content request =
     (if email_type request = ''verification'' then
        (let test_link = ''https://example.com/verify?token=TEST_TOKEN_123''
         in Inr ([CHR 0xF0, CHR 0x9F, CHR 0x8F, CHR 0xA5] @ '' Test Verification Email'',
                 get_verification_email_text test_link,
                 get_verification_email_html test_link))
      else if email_type request = ''password_reset'' then
        (let test_link = ''https://example.com/reset?token=TEST_TOKEN_123''
         in Inr ([CHR 0xF0, CHR 0x9F, CHR 0x94, CHR 0x92] @ '' Test Password Reset Email'',
                 get_password_reset_email_text test_link,
                 get_password_reset_email_html test_link))
      else if email_type request = ''custom'' then
        (if \<not> truthy (subject request) \<or> \<not> truthy (text_content request)
            \<or> \<not> truthy (html_content request)
         then Inl (HTTPException 400
                ''Custom email type requires subject, text_content, and html_content fields'')
         else Inr (the (subject request), the (text_content request), the (html_content request)))
      else Inl (HTTPException 400
             (''Invalid email_type: '' @ email_type request
              @ ''. Must be 'verification', 'password_reset', or 'custom'' @ [CHR 0x27])))"

text \<open>The three log lines of the handler (lines 139, 185 and 195).\<close>

definition log_testing :: "string \<Rightarrow> string" where
  "log_testing to_addr =
     [CHR 0xF0, CHR 0x9F, CHR 0x93, CHR 0xA7] @ '' Testing email send to: '' @ to_addr"

definition log_test_sent :: "string \<Rightarrow> string" where
  "log_test_sent to_addr =
     [CHR 0xE2, CHR 0x9C, CHR 0x93] @ '' Test email sent successfully to: '' @ to_addr"

definition log_test_error :: "string \<Rightarrow> string" where
  "log_test_error m = [CHR 0xE2, CHR 0x9D, CHR 0x8C] @ '' Error sending test email: '' @ m"

text \<open>
  The two \<open>except\<close> clauses of the handler (lines 192-199), applied to an exception
  raised in the \<open>try\<close>: an \<open>HTTPException\<close> is raised again as it is; for any other
  exception the error line is printed (line 195) and then the 500 that quotes the
  description is raised (lines 196-199). When that \<open>print\<close> raises, its exception
  leaves the handler instead and the 500 is not raised.
\<close>

fun handler_except :: "stdout \<Rightarrow> exn \<Rightarrow> exn \<times> effect list" where
  "handler_except out (HTTPException c d) = (HTTPException c d, [])"
| "handler_except out (Exception m) =
     (case out (log_test_error m) of
        Some m' \<Rightarrow> (Exception m', [Print (log_test_error m)])
      | None \<Rightarrow>
          (HTTPException 500 (''Failed to send test email: '' @ m), [Print (log_test_error m)]))"

definition raise_in_handler ::
  "stdout \<Rightarrow> exn \<Rightarrow> effect list \<Rightarrow> (exn + SuccessResponse) \<times> effect list" where
  "raise_in_handler out e effs =
     (case handler_except out e of (e', effs') \<Rightarrow> (Inl e', effs @ effs'))"

text \<open>
  The dispatcher is a parameter of the handler, so that it can be stubbed as the spec's
  tests do; a stub may return a flag or raise.
\<close>

type_synonym dispatcher = "string \<Rightarrow> string \<Rightarrow> string \<Rightarrow> string \<Rightarrow> exn + bool"

text \<open>
  The handler. Its \<open>print\<close> calls of lines 139 and 185 stand inside the \<open>try\<close>, so an
  exception of theirs is handled by the \<open>except\<close> clauses like one of the dispatcher.
\<close>

definition test_email ::
  "stdout \<Rightarrow> dispatcher \<Rightarrow> TestEmailRequest \<Rightarrow> (exn + SuccessResponse) \<times> effect list" where
  "test_email out send request =
     (let e0 = [Print (log_testing (to_email request))]
      in case out (log_testing (to_email request)) of
           Some m \<Rightarrow> raise_in_handler out (Exception m) e0
         | None \<Rightarrow>
      (case email_content request of
           Inl e \<Rightarrow> raise_in_handler out e e0
         | Inr (subj, text, html) \<Rightarrow>
             (let e1 = e0 @ [Dispatch (to_email request) subj text html]
              in case send (to_email request) subj text html of
                   Inl e \<Rightarrow> raise_in_handler out e e1
                 | Inr email_sent \<Rightarrow>
                     if \<not> email_sent then
                       raise_in_handler out
                         (HTTPException 500
                            ''Failed to send test email. Check server logs for details.'') e1
                     else
                       (let e2 = e1 @ [Print (log_test_sent (to_email request))]
                        in case out (log_test_sent (to_email request)) of
                             Some m \<Rightarrow> raise_in_handler out (Exception m) e2
                           | None \<Rightarrow>
                               (Inr \<lparr>success = True,
                                     message = ''Test email ('' @ email_type request
                                               @ '') sent successfully to ''
                                               @ to_email request\<rparr>,
                                e2)))))"

text \<open>The dispatcher calls a run of the handler made, with their arguments.\<close>

fun dispatches :: "effect list \<Rightarrow> (string \<times> string \<times> string \<times> string) list" where
  "dispatches [] = []"
| "dispatches (Dispatch a s t h # effs) = (a, s, t, h) # dispatches effs"
| "dispatches (_ # effs) = dispatches effs"

subsection \<open>The endpoint \<open>POST /api/test-email\<close>\<close>

text \<open>
  The framework around the handler is not part of the repository. What the claims need
  of it: a raised \<open>HTTPException\<close> becomes a response with its status code and detail, a
  returned model becomes a 200 response, and any other exception that leaves the handler
  becomes the framework's plain 500.
\<close>

datatype body = Detail string | Model SuccessResponse | Validation_errors | Internal_server_error

record response =
  status :: nat
  content :: body

fun respond :: "exn + SuccessResponse \<Rightarrow> response" where
  "respond (Inr r) = \<lparr>status = 200, content = Model r\<rparr>"
| "respond (Inl (HTTPException c d)) = \<lparr>status = c, content = Detail d\<rparr>"
| "respond (Inl (Exception m)) = \<lparr>status = 500, content = Internal_server_error\<rparr>"

text \<open>The constraint of the annotation \<open>Literal["verification", "password_reset", "custom"]\<close> (line 20).\<close>

definition email_type_Literal :: "string \<Rightarrow> bool" where
  "email_type_Literal t = (t = ''verification'' \<or> t = ''password_reset'' \<or> t = ''custom'')"

text \<open>
  Schema validation of the request body against \<open>TestEmailRequest\<close>. The check of the
  address (\<open>EmailStr\<close>, which gives the accepted address or fails) belongs to a library
  and is the parameter \<open>email_str\<close>.
\<close>

definition validate_request ::
  "(string \<Rightarrow> string option) \<Rightarrow> TestEmailRequest \<Rightarrow> TestEmailRequest option" where
  "validate_request email_str b =
     (case email_str (to_email b) of
        None \<Rightarrow> None
      | Some a \<Rightarrow> if email_type_Literal (email_type b) then Some (b\<lparr>to_email := a\<rparr>) else None)"

text \<open>
  The endpoint: the framework validates the body, and only a body that passes reaches
  \<open>test_email\<close>. The status of the framework's answer to a body that fails validation is
  not set anywhere in \<open>main.py\<close> (no exception handler is registered); it is the parameter
  \<open>validation_status\<close>.
\<close>

definition endpoint ::
  "nat \<Rightarrow> (string \<Rightarrow> string option) \<Rightarrow> stdout \<Rightarrow> dispatcher \<Rightarrow> TestEmailRequest \<Rightarrow>
   response \<times> effect list" where
  "endpoint validation_status email_str out send b =
     (case validate_request email_str b of
        None \<Rightarrow> (\<lparr>status = validation_status, content = Validation_errors\<rparr>, [])
      | Some request \<Rightarrow>
          (case test_email out send request of (r, effs) \<Rightarrow> (respond r, effs)))"

section \<open>Properties\<close>

subsection \<open>What a run of the handler returns and dispatches\<close>

lemma dispatches_append: "dispatches (xs @ ys) = dispatches xs @ dispatches ys"
  by (induction xs rule: dispatches.induct) simp_all

lemma handler_except_returns:
  "out (log_test_error m) = None \<Longrightarrow>
   fst (handler_except out (Exception m)) = HTTPException 500 (''Failed to send test email: '' @ m)"
  by simp

lemma handler_except_raises:
  "out (log_test_error m) = Some m' \<Longrightarrow> fst (handler_except out (Exception m)) = Exception m'"
  by simp

lemma handler_except_Exception:
  "fst (handler_except out e) = Exception m' \<Longrightarrow> \<exists>m. out (log_test_error m) = Some m'"
  by (cases e) (auto split: option.splits)

lemma fst_raise_in_handler:
  "fst (raise_in_handler out e effs) = Inl (fst (handler_except out e))"
  by (cases e) (simp_all add: raise_in_handler_def split: option.splits)

lemma dispatches_raise_in_handler:
  "dispatches (snd (raise_in_handler out e effs)) = dispatches effs"
  by (cases e) (simp_all add: raise_in_handler_def dispatches_append split: option.splits)

lemma test_email_result:
  "out (log_testing (to_email request)) = None \<Longrightarrow>
   fst (test_email out send request) =
     (case email_content request of
        Inl e \<Rightarrow> Inl (fst (handler_except out e))
      | Inr (s, t, h) \<Rightarrow>
          (case send (to_email request) s t h of
             Inl e \<Rightarrow> Inl (fst (handler_except out e))
           | Inr email_sent \<Rightarrow>
               if email_sent
               then (case out (log_test_sent (to_email request)) of
                       Some m \<Rightarrow> Inl (fst (handler_except out (Exception m)))
                     | None \<Rightarrow>
                         Inr \<lparr>success = True,
                              message = ''Test email ('' @ email_type request
                                        @ '') sent successfully to '' @ to_email request\<rparr>)
               else Inl (HTTPException 500
                           ''Failed to send test email. Check server logs for details.'')))"
  by (simp add: test_email_def Let_def fst_raise_in_handler
           split: sum.splits prod.splits option.splits)

lemma test_email_first_print_raises:
  "out (log_testing (to_email request)) = Some m \<Longrightarrow>
   fst (test_email out send request) = Inl (fst (handler_except out (Exception m)))"
  by (simp add: test_email_def Let_def fst_raise_in_handler)

lemma test_email_dispatches:
  "out (log_testing (to_email request)) = None \<Longrightarrow>
   dispatches (snd (test_email out send request)) =
     (case email_content request of
        Inl e \<Rightarrow> []
      | Inr (s, t, h) \<Rightarrow> [(to_email request, s, t, h)])"
  by (simp add: test_email_def Let_def dispatches_raise_in_handler dispatches_append
           split: sum.splits prod.splits option.splits)

lemma email_content_custom:
  "email_type request = ''custom'' \<Longrightarrow>
   email_content request =
     (if truthy (subject request) \<and> truthy (text_content request) \<and> truthy (html_content request)
      then Inr (the (subject request), the (text_content request), the (html_content request))
      else Inl (HTTPException 400
                  ''Custom email type requires subject, text_content, and html_content fields''))"
  by (simp add: email_content_def)


subsection \<open>The fixed content of the two canned kinds\<close>

lemma email_content_verification:
  "email_type request = ''verification'' \<Longrightarrow>
   email_content request =
     Inr ([CHR 0xF0, CHR 0x9F, CHR 0x8F, CHR 0xA5] @ '' Test Verification Email'',
          get_verification_email_text ''https://example.com/verify?token=TEST_TOKEN_123'',
          get_verification_email_html ''https://example.com/verify?token=TEST_TOKEN_123'')"
  by (simp add: email_content_def Let_def)

lemma email_content_password_reset:
  "email_type request = ''password_reset'' \<Longrightarrow>
   email_content request =
     Inr ([CHR 0xF0, CHR 0x9F, CHR 0x94, CHR 0x92] @ '' Test Password Reset Email'',
          get_password_reset_email_text ''https://example.com/reset?token=TEST_TOKEN_123'',
          get_password_reset_email_html ''https://example.com/reset?token=TEST_TOKEN_123'')"
  by (simp add: email_content_def Let_def)

lemma sublist_in_prefix: "sublist xs pre \<Longrightarrow> sublist xs (pre @ link @ post)"
  by (simp add: sublist_append)

lemma sublist_in_suffix: "sublist xs post \<Longrightarrow> sublist xs (pre @ link @ post)"
  by (simp add: sublist_append)

lemma sublist_link: "sublist link (pre @ link @ post)"
  by (rule sublist_appendI)

lemmas sublist_eval = sublist_Cons_right prefix_Cons

lemma verification_text_heading: "sublist ''Verify Your Email'' (get_verification_email_text link)"
  unfolding get_verification_email_text_def
  by (rule sublist_in_prefix) (simp add: sublist_eval)

lemma verification_text_line: "sublist ''Please click the following link to verify your email address:'' (get_verification_email_text link)"
  unfolding get_verification_email_text_def
  by (rule sublist_in_prefix) (simp add: sublist_eval)

lemma verification_text_footer: "sublist ''If you did not request this, please ignore this email.'' (get_verification_email_text link)"
  unfolding get_verification_email_text_def
  by (rule sublist_in_suffix) (simp add: sublist_eval)

lemma verification_html_heading: "sublist ''<h2>Verify Your Email</h2>'' (get_verification_email_html link)"
  unfolding get_verification_email_html_def
  by (rule sublist_in_prefix) (simp add: sublist_eval)

lemma verification_html_button: "sublist ''>Verify Email</a>'' (get_verification_email_html link)"
  unfolding get_verification_email_html_def
  by (rule sublist_in_suffix) (simp add: sublist_eval)


lemma password_reset_text_heading: "sublist ''Password Reset Request'' (get_password_reset_email_text link)"
  unfolding get_password_reset_email_text_def
  by (rule sublist_in_prefix) (simp add: sublist_eval)

lemma password_reset_text_line: "sublist ''Please click the following link to reset your password:'' (get_password_reset_email_text link)"
  unfolding get_password_reset_email_text_def
  by (rule sublist_in_prefix) (simp add: sublist_eval)

lemma password_reset_text_footer: "sublist ''If you did not request this, please ignore this email.'' (get_password_reset_email_text link)"
  unfolding get_password_reset_email_text_def
  by (rule sublist_in_suffix) (simp add: sublist_eval)

lemma password_reset_html_heading: "sublist ''<h2>Password Reset Request</h2>'' (get_password_reset_email_html link)"
  unfolding get_password_reset_email_html_def
  by (rule sublist_in_prefix) (simp add: sublist_eval)

lemma password_reset_html_button: "sublist ''>Reset Password</a>'' (get_password_reset_email_html link)"
  unfolding get_password_reset_email_html_def
  by (rule sublist_in_suffix) (simp add: sublist_eval)

lemma link_in_verification_text: "sublist link (get_verification_email_text link)"
  unfolding get_verification_email_text_def by (rule sublist_link)

lemma link_in_verification_html: "sublist link (get_verification_email_html link)"
  unfolding get_verification_email_html_def by (rule sublist_link)

lemma link_in_password_reset_text: "sublist link (get_password_reset_email_text link)"
  unfolding get_password_reset_email_text_def by (rule sublist_link)

lemma link_in_password_reset_html: "sublist link (get_password_reset_email_html link)"
  unfolding get_password_reset_email_html_def by (rule sublist_link)

subsection \<open>The claims\<close>





text \<open>
  Claim C3. For the types \<open>verification\<close> and \<open>password_reset\<close> the dispatcher is
  called once, with the fixed subject of the type and with the text and HTML that the
  type's builders make of the type's fixed test link. Nothing in them depends on the
  recipient: both bodies contain the link and the boilerplate of the template. This
  holds on every standard output that takes the handler's first log line.
\<close>

theorem C3_canned_bodies:
  assumes "email_type request = ''verification'' \<or> email_type request = ''password_reset''"
    and "out (log_testing (to_email request)) = None"
  shows "\<exists>subj text html link.
           dispatches (snd (test_email out send request)) = [(to_email request, subj, text, html)]
         \<and> (subj, text, html, link) =
             (if email_type request = ''verification''
              then ([CHR 0xF0, CHR 0x9F, CHR 0x8F, CHR 0xA5] @ '' Test Verification Email'',
                    get_verification_email_text ''https://example.com/verify?token=TEST_TOKEN_123'',
                    get_verification_email_html ''https://example.com/verify?token=TEST_TOKEN_123'',
                    ''https://example.com/verify?token=TEST_TOKEN_123'')
              else ([CHR 0xF0, CHR 0x9F, CHR 0x94, CHR 0x92] @ '' Test Password Reset Email'',
                    get_password_reset_email_text ''https://example.com/reset?token=TEST_TOKEN_123'',
                    get_password_reset_email_html ''https://example.com/reset?token=TEST_TOKEN_123'',
                    ''https://example.com/reset?token=TEST_TOKEN_123''))
         \<and> sublist link text \<and> sublist link html
         \<and> sublist ''If you did not request this, please ignore this email.'' text
         \<and> sublist (if email_type request = ''verification''
                      then ''Verify Your Email'' else ''Password Reset Request'') text
         \<and> sublist (if email_type request = ''verification''
                      then ''Please click the following link to verify your email address:''
                      else ''Please click the following link to reset your password:'') text
         \<and> sublist (if email_type request = ''verification''
                      then ''<h2>Verify Your Email</h2>''
                      else ''<h2>Password Reset Request</h2>'') html
         \<and> sublist (if email_type request = ''verification''
                      then ''>Verify Email</a>'' else ''>Reset Password</a>'') html"
proof (cases "email_type request = ''verification''")
  case True
  with assms(2) show ?thesis
    by (simp add: test_email_dispatches email_content_verification verification_text_heading verification_text_line verification_text_footer verification_html_heading verification_html_button
          link_in_verification_text link_in_verification_html)
next
  case False
  with assms(1) have "email_type request = ''password_reset''" by simp
  with False assms(2) show ?thesis
    by (simp add: test_email_dispatches email_content_password_reset password_reset_text_heading password_reset_text_line password_reset_text_footer password_reset_html_heading password_reset_html_button
          link_in_password_reset_text link_in_password_reset_html)
qed

theorem C3_canned_bodies_witness:
  "dispatches (snd (test_email (\<lambda>line. None) (\<lambda>a s t h. Inr True)
      \<lparr>to_email = ''a@b.com'', email_type = ''verification'', subject = None,
       text_content = None, html_content = None\<rparr>)) =
     [(''a@b.com'',
       [CHR 0xF0, CHR 0x9F, CHR 0x8F, CHR 0xA5] @ '' Test Verification Email'',
       get_verification_email_text ''https://example.com/verify?token=TEST_TOKEN_123'',
       get_verification_email_html ''https://example.com/verify?token=TEST_TOKEN_123'')]
   \<and> sublist ''https://example.com/verify?token=TEST_TOKEN_123''
         (get_verification_email_text ''https://example.com/verify?token=TEST_TOKEN_123'')
   \<and> sublist ''https://example.com/verify?token=TEST_TOKEN_123''
         (get_verification_email_html ''https://example.com/verify?token=TEST_TOKEN_123'')"
  using C3_canned_bodies
    [where request = "\<lparr>to_email = ''a@b.com'', email_type = ''verification'', subject = None,
          text_content = None, html_content = None\<rparr>"
       and send = "\<lambda>a s t h. Inr True" and out = "\<lambda>line. None"]
  by auto

text \<open>
  Claim C4. When the content of a request has been selected and the dispatcher returns
  \<open>False\<close>, the handler raises the 500 with the fixed "failed to send" detail, so the
  response has status 500 and is not a success response. This holds on every standard
  output that takes the handler's first log line.
\<close>

theorem C4_dispatch_failure_500:
  assumes "email_content request = Inr (s, t, h)"
    and "send (to_email request) s t h = Inr False"
    and "out (log_testing (to_email request)) = None"
  shows "fst (test_email out send request) =
           Inl (HTTPException 500 ''Failed to send test email. Check server logs for details.'')
       \<and> respond (fst (test_email out send request)) =
           \<lparr>status = 500,
            content = Detail ''Failed to send test email. Check server logs for details.''\<rparr>
       \<and> status (respond (fst (test_email out send request))) \<noteq> 200"
  using assms by (simp add: test_email_result)

theorem C4_dispatch_failure_500_witness:
  "fst (test_email (\<lambda>line. None) (\<lambda>a s t h. Inr False)
      \<lparr>to_email = ''a@b.com'', email_type = ''custom'', subject = Some ''S'',
       text_content = Some ''T'', html_content = Some ''H''\<rparr>) =
     Inl (HTTPException 500 ''Failed to send test email. Check server logs for details.'')
   \<and> respond (fst (test_email (\<lambda>line. None) (\<lambda>a s t h. Inr False)
      \<lparr>to_email = ''a@b.com'', email_type = ''custom'', subject = Some ''S'',
       text_content = Some ''T'', html_content = Some ''H''\<rparr>)) =
     \<lparr>status = 500,
      content = Detail ''Failed to send test email. Check server logs for details.''\<rparr>
   \<and> status (respond (fst (test_email (\<lambda>line. None) (\<lambda>a s t h. Inr False)
      \<lparr>to_email = ''a@b.com'', email_type = ''custom'', subject = Some ''S'',
       text_content = Some ''T'', html_content = Some ''H''\<rparr>))) \<noteq> 200"
  using C4_dispatch_failure_500
    [where request = "\<lparr>to_email = ''a@b.com'', email_type = ''custom'', subject = Some ''S'',
          text_content = Some ''T'', html_content = Some ''H''\<rparr>"
       and s = "''S''" and t = "''T''" and h = "''H''"
       and send = "\<lambda>a s t h. Inr False" and out = "\<lambda>line. None"]
  by (simp add: email_content_custom)



lemma test_email_Exception:
  assumes "fst (test_email out send request) = Inl (Exception m')"
  shows "\<exists>m. out (log_test_error m) = Some m'"
proof -
  have "\<exists>e. fst (handler_except out e) = Exception m'"
  proof (cases "out (log_testing (to_email request))")
    case None
    with assms show ?thesis
      by (auto simp add: test_email_result simp del: handler_except.simps
            split: sum.splits prod.splits option.splits if_splits)
  next
    case (Some m)
    with assms show ?thesis
      by (auto simp add: test_email_first_print_raises simp del: handler_except.simps)
  qed
  then show ?thesis by (auto dest: handler_except_Exception)
qed

text \<open>
  Claim C7, as amended. At the handler's outer \<open>try\<close>: an \<open>HTTPException\<close> raised
  while the content is selected, or by the dispatcher, leaves the handler with the same
  status code and detail. Any other exception raised in the \<open>try\<close> (by the dispatcher,
  or by the \<open>print\<close> of line 139 or of line 185) leaves it as a 500 whose detail ends
  with the exception's description, when the \<open>print\<close> of the error line (line 195)
  returns. The only exception other than an \<open>HTTPException\<close> that can leave the handler
  is one raised by that \<open>print\<close>, which stands inside the \<open>except\<close> clause in front of
  the \<open>raise\<close> (the counterexample).
\<close>

theorem C7_handler_converts_exceptions:
  "(out (log_testing (to_email request)) = None
    \<and> email_content request = Inl (HTTPException c d) \<longrightarrow>
      fst (test_email out send request) = Inl (HTTPException c d))
 \<and> (out (log_testing (to_email request)) = None
    \<and> email_content request = Inr (s, t, h)
    \<and> send (to_email request) s t h = Inl (HTTPException c d) \<longrightarrow>
      fst (test_email out send request) = Inl (HTTPException c d))
 \<and> (out (log_testing (to_email request)) = None
    \<and> email_content request = Inr (s, t, h)
    \<and> send (to_email request) s t h = Inl (Exception m)
    \<and> out (log_test_error m) = None \<longrightarrow>
      fst (test_email out send request) = Inl (HTTPException 500 (''Failed to send test email: '' @ m))
      \<and> status (respond (fst (test_email out send request))) = 500
      \<and> sublist m (''Failed to send test email: '' @ m))
 \<and> (out (log_testing (to_email request)) = Some m
    \<and> out (log_test_error m) = None \<longrightarrow>
      fst (test_email out send request) = Inl (HTTPException 500 (''Failed to send test email: '' @ m)))
 \<and> (out (log_testing (to_email request)) = None
    \<and> email_content request = Inr (s, t, h)
    \<and> send (to_email request) s t h = Inr True
    \<and> out (log_test_sent (to_email request)) = Some m
    \<and> out (log_test_error m) = None \<longrightarrow>
      fst (test_email out send request) = Inl (HTTPException 500 (''Failed to send test email: '' @ m)))
 \<and> (\<forall>m'. fst (test_email out send request) = Inl (Exception m') \<longrightarrow>
        (\<exists>m. out (log_test_error m) = Some m'))"
proof (intro conjI impI allI)
  show "sublist m (''Failed to send test email: '' @ m)"
    by (rule sublist_append_leftI)
  show "\<exists>m. out (log_test_error m) = Some m'"
    if "fst (test_email out send request) = Inl (Exception m')" for m'
    using that by (rule test_email_Exception)
qed (simp_all add: test_email_result test_email_first_print_raises)

theorem C7_handler_converts_exceptions_witness:
  "fst (test_email (\<lambda>line. None) (\<lambda>a s t h. Inl (HTTPException 418 ''teapot''))
      \<lparr>to_email = ''a@b.com'', email_type = ''custom'', subject = Some ''S'',
       text_content = Some ''T'', html_content = None\<rparr>) =
     Inl (HTTPException 400
            ''Custom email type requires subject, text_content, and html_content fields'')
 \<and> fst (test_email (\<lambda>line. None) (\<lambda>a s t h. Inl (HTTPException 418 ''teapot''))
      \<lparr>to_email = ''a@b.com'', email_type = ''custom'', subject = Some ''S'',
       text_content = Some ''T'', html_content = Some ''H''\<rparr>) =
     Inl (HTTPException 418 ''teapot'')
 \<and> fst (test_email (\<lambda>line. None) (\<lambda>a s t h. Inl (Exception ''boom''))
      \<lparr>to_email = ''a@b.com'', email_type = ''custom'', subject = Some ''S'',
       text_content = Some ''T'', html_content = Some ''H''\<rparr>) =
     Inl (HTTPException 500 ''Failed to send test email: boom'')"
  using C7_handler_converts_exceptions
    [where request = "\<lparr>to_email = ''a@b.com'', email_type = ''custom'', subject = Some ''S'',
          text_content = Some ''T'', html_content = None\<rparr>"
       and c = 400
       and d = "''Custom email type requires subject, text_content, and html_content fields''"
       and send = "\<lambda>a s t h. Inl (HTTPException 418 ''teapot'')" and out = "\<lambda>line. None"]
    C7_handler_converts_exceptions
    [where request = "\<lparr>to_email = ''a@b.com'', email_type = ''custom'', subject = Some ''S'',
          text_content = Some ''T'', html_content = Some ''H''\<rparr>"
       and c = 418 and d = "''teapot''"
       and send = "\<lambda>a s t h. Inl (HTTPException 418 ''teapot'')"
       and s = "''S''" and t = "''T''" and h = "''H''" and out = "\<lambda>line. None"]
    C7_handler_converts_exceptions
    [where request = "\<lparr>to_email = ''a@b.com'', email_type = ''custom'', subject = Some ''S'',
          text_content = Some ''T'', html_content = Some ''H''\<rparr>"
       and send = "\<lambda>a s t h. Inl (Exception ''boom'')"
       and s = "''S''" and t = "''T''" and h = "''H''" and m = "''boom''"
       and out = "\<lambda>line. None"]
  by (simp add: email_content_custom)

theorem C7_error_print_raises_counterexample:
  "fst (test_email
      (\<lambda>line. if line = log_testing ''a@b.com'' then None else Some ''Broken pipe'')
      (\<lambda>a s t h. Inl (Exception ''boom''))
      \<lparr>to_email = ''a@b.com'', email_type = ''custom'', subject = Some ''S'',
       text_content = Some ''T'', html_content = Some ''H''\<rparr>) =
     Inl (Exception ''Broken pipe'')
 \<and> respond (fst (test_email
      (\<lambda>line. if line = log_testing ''a@b.com'' then None else Some ''Broken pipe'')
      (\<lambda>a s t h. Inl (Exception ''boom''))
      \<lparr>to_email = ''a@b.com'', email_type = ''custom'', subject = Some ''S'',
       text_content = Some ''T'', html_content = Some ''H''\<rparr>)) =
     \<lparr>status = 500, content = Internal_server_error\<rparr>"
  by (simp add: test_email_result email_content_custom log_testing_def log_test_error_def)

lemma email_content_canned_eq:
  assumes "email_type r1 = ''verification'' \<or> email_type r1 = ''password_reset''"
    and "email_type r2 = email_type r1"
  shows "email_content r2 = email_content r1"
  using assms by (auto simp add: email_content_verification email_content_password_reset)

lemma test_email_canned_eq:
  assumes "email_type r1 = ''verification'' \<or> email_type r1 = ''password_reset''"
    and "email_type r2 = email_type r1" and "to_email r2 = to_email r1"
  shows "test_email out send r2 = test_email out send r1"
  unfolding test_email_def email_content_canned_eq [OF assms(1,2)] assms(2) assms(3)
  by (rule refl)

text \<open>
  Claim C10. For the types \<open>verification\<close> and \<open>password_reset\<close>, two requests with
  the same type and recipient give the same result and the same effects, whatever their
  optional fields hold, in the handler and at the endpoint, on every standard output;
  the content is selected (nothing is rejected), and it is dispatched when the standard
  output takes the handler's first log line.
\<close>

theorem C10_optional_fields_ignored:
  assumes "email_type r1 = ''verification'' \<or> email_type r1 = ''password_reset''"
    and "email_type r2 = email_type r1" and "to_email r2 = to_email r1"
  shows "test_email out send r2 = test_email out send r1
       \<and> endpoint validation_status email_str out send r2 = endpoint validation_status email_str out send r1
       \<and> (\<exists>s t h. email_content r2 = Inr (s, t, h)
                  \<and> email_content r1 = Inr (s, t, h)
                  \<and> (out (log_testing (to_email r1)) = None \<longrightarrow>
                       dispatches (snd (test_email out send r2)) = [(to_email r1, s, t, h)]))"
proof -
  have same: "test_email out send r2 = test_email out send r1"
    using assms by (rule test_email_canned_eq)
  have "test_email out send (r2\<lparr>to_email := a\<rparr>) = test_email out send (r1\<lparr>to_email := a\<rparr>)" for a
    using assms(1,2) by (intro test_email_canned_eq) simp_all
  then have "endpoint validation_status email_str out send r2
             = endpoint validation_status email_str out send r1"
    using assms(2,3) by (simp add: endpoint_def validate_request_def split: option.splits)
  moreover have "\<exists>s t h. email_content r2 = Inr (s, t, h) \<and> email_content r1 = Inr (s, t, h)
                  \<and> (out (log_testing (to_email r1)) = None \<longrightarrow>
                       dispatches (snd (test_email out send r2)) = [(to_email r1, s, t, h)])"
    using assms email_content_canned_eq [OF assms(1,2)]
    by (auto simp add: test_email_dispatches email_content_verification
          email_content_password_reset)
  ultimately show ?thesis using same by blast
qed

theorem C10_optional_fields_ignored_witness:
  "test_email (\<lambda>line. None) (\<lambda>a s t h. Inr True)
     \<lparr>to_email = ''a@b.com'', email_type = ''password_reset'', subject = Some ''mine'',
      text_content = Some [], html_content = Some ''<b>x</b>''\<rparr>
   = test_email (\<lambda>line. None) (\<lambda>a s t h. Inr True)
     \<lparr>to_email = ''a@b.com'', email_type = ''password_reset'', subject = None,
      text_content = None, html_content = None\<rparr>"
  using C10_optional_fields_ignored
    [of "\<lparr>to_email = ''a@b.com'', email_type = ''password_reset'', subject = None,
          text_content = None, html_content = None\<rparr>"
        "\<lparr>to_email = ''a@b.com'', email_type = ''password_reset'', subject = Some ''mine'',
          text_content = Some [], html_content = Some ''<b>x</b>''\<rparr>"
        "\<lambda>line. None" "\<lambda>a s t h. Inr True"]
  by simp

lemma href_in_verification_html:
  "sublist (''<a href=\"'' @ link @ ''\" style='') (get_verification_email_html link)"
proof -
  have "get_verification_email_html link =
          ''\<newline>    <html>\<newline>        <body>\<newline>            <h2>Verify Your Email</h2>\<newline>            <p>Please click the button below to verify your email address:</p>\<newline>            ''
          @ (''<a href=\"'' @ link @ ''\" style='') @
          ''\"background-color: #4CAF50; color: white; padding: 14px 20px; text-decoration: none; border-radius: 4px; display: inline-block;\">Verify Email</a>\<newline>            <p>If you did not request this, please ignore this email.</p>\<newline>        </body>\<newline>    </html>\<newline>    ''"
    by (simp add: get_verification_email_html_def)
  then show ?thesis by (simp only: sublist_appendI)
qed

lemma href_in_password_reset_html:
  "sublist (''<a href=\"'' @ link @ ''\" style='') (get_password_reset_email_html link)"
proof -
  have "get_password_reset_email_html link =
          ''\<newline>    <html>\<newline>        <body>\<newline>            <h2>Password Reset Request</h2>\<newline>            <p>Please click the button below to reset your password:</p>\<newline>            ''
          @ (''<a href=\"'' @ link @ ''\" style='') @
          ''\"background-color: #f44336; color: white; padding: 14px 20px; text-decoration: none; border-radius: 4px; display: inline-block;\">Reset Password</a>\<newline>            <p>If you did not request this, please ignore this email.</p>\<newline>        </body>\<newline>    </html>\<newline>    ''"
    by (simp add: get_password_reset_email_html_def)
  then show ?thesis by (simp only: sublist_appendI)
qed

text \<open>
  Claim C9. Each of the four template builders is a total function of the link that
  returns a fixed text before the link, the link itself and a fixed text after it, the
  empty link included. The link is not escaped: it stands in the output as it was given,
  in the HTML builders between \<open>href="\<close> and the closing quote, also when it holds
  quotes, angle brackets or an ampersand.
\<close>

theorem C9_builders_interpolate_verbatim:
  "(\<exists>pre post. \<forall>link. get_verification_email_text link = pre @ link @ post)
 \<and> (\<exists>pre post. \<forall>link. get_verification_email_html link = pre @ link @ post)
 \<and> (\<exists>pre post. \<forall>link. get_password_reset_email_text link = pre @ link @ post)
 \<and> (\<exists>pre post. \<forall>link. get_password_reset_email_html link = pre @ link @ post)
 \<and> sublist l (get_verification_email_text l)
 \<and> sublist l (get_verification_email_html l)
 \<and> sublist l (get_password_reset_email_text l)
 \<and> sublist l (get_password_reset_email_html l)
 \<and> sublist (''<a href=\"'' @ l @ ''\" style='') (get_verification_email_html l)
 \<and> sublist (''<a href=\"'' @ l @ ''\" style='') (get_password_reset_email_html l)
 \<and> sublist ''<a href=\"\"><script>alert(1)</script>&<\" style=''
       (get_verification_email_html ''\"><script>alert(1)</script>&<'')
 \<and> sublist ''<a href=\"\"><script>alert(1)</script>&<\" style=''
       (get_password_reset_email_html ''\"><script>alert(1)</script>&<'')
 \<and> sublist ''<a href=\"\" style='' (get_verification_email_html [])
 \<and> sublist ''<a href=\"\" style='' (get_password_reset_email_html [])"
proof (intro conjI)
  show "\<exists>pre post. \<forall>link. get_verification_email_text link = pre @ link @ post"
    unfolding get_verification_email_text_def by blast
  show "\<exists>pre post. \<forall>link. get_verification_email_html link = pre @ link @ post"
    unfolding get_verification_email_html_def by blast
  show "\<exists>pre post. \<forall>link. get_password_reset_email_text link = pre @ link @ post"
    unfolding get_password_reset_email_text_def by blast
  show "\<exists>pre post. \<forall>link. get_password_reset_email_html link = pre @ link @ post"
    unfolding get_password_reset_email_html_def by blast
  show "sublist ''<a href=\"\"><script>alert(1)</script>&<\" style=''
          (get_verification_email_html ''\"><script>alert(1)</script>&<'')"
    using href_in_verification_html [of "''\"><script>alert(1)</script>&<''"] by simp
  show "sublist ''<a href=\"\"><script>alert(1)</script>&<\" style=''
          (get_password_reset_email_html ''\"><script>alert(1)</script>&<'')"
    using href_in_password_reset_html [of "''\"><script>alert(1)</script>&<''"] by simp
  show "sublist ''<a href=\"\" style='' (get_verification_email_html [])"
    using href_in_verification_html [of "[]"] by simp
  show "sublist ''<a href=\"\" style='' (get_password_reset_email_html [])"
    using href_in_password_reset_html [of "[]"] by simp
qed (rule link_in_verification_text link_in_verification_html link_in_password_reset_text
       link_in_password_reset_html href_in_verification_html href_in_password_reset_html)+

subsection \<open>The dispatcher and the schema\<close>

lemma send_email_gmail_try_True:
  "fst (send_email_gmail_try out cfg env a s t h) = Inr True \<longleftrightarrow>
     (mime env (build_message cfg a s t h) = None
      \<and> connect env ''smtp.gmail.com'' 587 10 = None
      \<and> starttls env = None
      \<and> login env (GMAIL_USER cfg) (GMAIL_APP_PASSWORD cfg) = None
      \<and> send_message env (build_message cfg a s t h) = None
      \<and> quit env = None
      \<and> out (log_sent a) = None)"
  by (simp add: send_email_gmail_try_def Let_def split: option.splits)

lemma send_email_gmail_try_cases:
  "fst (send_email_gmail_try out cfg env a s t h) = Inr True
   \<or> (\<exists>m. fst (send_email_gmail_try out cfg env a s t h) = Inl m)"
  by (simp add: send_email_gmail_try_def Let_def split: option.splits)

lemma send_email_gmail_fst:
  "fst (send_email_gmail out cfg env a s t h) =
     (case fst (send_email_gmail_try out cfg env a s t h) of
        Inr b \<Rightarrow> Inr b
      | Inl m \<Rightarrow> (case out (log_failed m) of
                     Some m' \<Rightarrow> Inl (Exception m')
                   | None \<Rightarrow> Inr False))"
  by (simp add: send_email_gmail_def split: prod.splits sum.splits option.splits)

lemma send_email_gmail_returns:
  assumes "\<forall>m. out (log_failed m) = None"
  shows "fst (send_email_gmail out cfg env a s t h) =
     Inr (mime env (build_message cfg a s t h) = None
          \<and> connect env ''smtp.gmail.com'' 587 10 = None
          \<and> starttls env = None
          \<and> login env (GMAIL_USER cfg) (GMAIL_APP_PASSWORD cfg) = None
          \<and> send_message env (build_message cfg a s t h) = None
          \<and> quit env = None
          \<and> out (log_sent a) = None)"
proof -
  from send_email_gmail_try_cases [of out cfg env a s t h] show ?thesis
  proof
    assume T: "fst (send_email_gmail_try out cfg env a s t h) = Inr True"
    then show ?thesis
      using send_email_gmail_try_True [of out cfg env a s t h]
      by (simp add: send_email_gmail_fst)
  next
    assume "\<exists>m. fst (send_email_gmail_try out cfg env a s t h) = Inl m"
    then obtain m where F: "fst (send_email_gmail_try out cfg env a s t h) = Inl m" ..
    then have "fst (send_email_gmail_try out cfg env a s t h) \<noteq> Inr True" by simp
    then show ?thesis
      using send_email_gmail_try_True [of out cfg env a s t h] F assms
      by (simp add: send_email_gmail_fst)
  qed
qed

lemma send_email_gmail_raises:
  assumes "fst (send_email_gmail out cfg env a s t h) = Inl e"
  shows "\<exists>m m'. out (log_failed m) = Some m' \<and> e = Exception m'"
  using assms
  by (auto simp add: send_email_gmail_fst split: sum.splits option.splits)

lemma send_email_gmail_effects:
  "filter is_network (snd (send_email_gmail out cfg env a s t h)) =
   filter is_network (snd (send_email_gmail_try out cfg env a s t h))"
  by (simp add: send_email_gmail_def split: prod.splits sum.splits option.splits)

lemma send_email_gmail_try_network:
  "filter is_network (snd (send_email_gmail_try out cfg env a s t h)) \<in>
     {[], [SMTP_connect ''smtp.gmail.com'' 587 10],
      [SMTP_connect ''smtp.gmail.com'' 587 10, SMTP_starttls],
      [SMTP_connect ''smtp.gmail.com'' 587 10, SMTP_starttls,
       SMTP_login (GMAIL_USER cfg) (GMAIL_APP_PASSWORD cfg)],
      [SMTP_connect ''smtp.gmail.com'' 587 10, SMTP_starttls,
       SMTP_login (GMAIL_USER cfg) (GMAIL_APP_PASSWORD cfg),
       SMTP_send_message (build_message cfg a s t h)],
      [SMTP_connect ''smtp.gmail.com'' 587 10, SMTP_starttls,
       SMTP_login (GMAIL_USER cfg) (GMAIL_APP_PASSWORD cfg),
       SMTP_send_message (build_message cfg a s t h), SMTP_quit]}"
  by (simp add: send_email_gmail_try_def Let_def split: option.splits)

lemma send_email_gmail_network:
  "prefix (filter is_network (snd (send_email_gmail out cfg env a s t h)))
     [SMTP_connect ''smtp.gmail.com'' 587 10, SMTP_starttls,
      SMTP_login (GMAIL_USER cfg) (GMAIL_APP_PASSWORD cfg),
      SMTP_send_message (build_message cfg a s t h), SMTP_quit]
   \<and> distinct (filter is_network (snd (send_email_gmail out cfg env a s t h)))"
  using send_email_gmail_try_network [of out cfg env a s t h]
  unfolding send_email_gmail_effects [of out cfg env a s t h]
  by (elim insertE emptyE) (simp_all add: prefix_Cons)

text \<open>
  Claim C6, as amended. Whatever the library calls do, when the \<open>print\<close> of the failure
  line (line 107) returns, \<open>send_email_gmail\<close> returns a flag and raises nothing: the
  flag is \<open>True\<close> exactly when the construction of the message, the connection, STARTTLS,
  the login, the transmission, \<open>quit\<close> and the \<open>print\<close> of the success line all returned
  normally, and \<open>False\<close> as soon as one of them raised. The only exception that can
  leave the function is one raised by the \<open>print\<close> of the failure line itself, which
  stands inside the \<open>except\<close> clause (the counterexample). On every standard output the
  network calls are an initial part of connect, starttls, login, send_message, quit,
  each at most once: nothing is tried again.
\<close>

theorem C6_dispatcher_failures_to_False:
  "((\<forall>m. out (log_failed m) = None) \<longrightarrow>
      fst (send_email_gmail out cfg env a s t h) =
        Inr (mime env (build_message cfg a s t h) = None
             \<and> connect env ''smtp.gmail.com'' 587 10 = None
             \<and> starttls env = None
             \<and> login env (GMAIL_USER cfg) (GMAIL_APP_PASSWORD cfg) = None
             \<and> send_message env (build_message cfg a s t h) = None
             \<and> quit env = None
             \<and> out (log_sent a) = None)
      \<and> (\<forall>e. fst (send_email_gmail out cfg env a s t h) \<noteq> Inl e))
 \<and> (\<forall>e. fst (send_email_gmail out cfg env a s t h) = Inl e \<longrightarrow>
        (\<exists>m m'. out (log_failed m) = Some m' \<and> e = Exception m'))
 \<and> prefix (filter is_network (snd (send_email_gmail out cfg env a s t h)))
     [SMTP_connect ''smtp.gmail.com'' 587 10, SMTP_starttls,
      SMTP_login (GMAIL_USER cfg) (GMAIL_APP_PASSWORD cfg),
      SMTP_send_message (build_message cfg a s t h), SMTP_quit]
 \<and> distinct (filter is_network (snd (send_email_gmail out cfg env a s t h)))"
proof (intro conjI impI allI)
  assume "\<forall>m. out (log_failed m) = None"
  then show "fst (send_email_gmail out cfg env a s t h) =
        Inr (mime env (build_message cfg a s t h) = None
             \<and> connect env ''smtp.gmail.com'' 587 10 = None
             \<and> starttls env = None
             \<and> login env (GMAIL_USER cfg) (GMAIL_APP_PASSWORD cfg) = None
             \<and> send_message env (build_message cfg a s t h) = None
             \<and> quit env = None
             \<and> out (log_sent a) = None)"
    by (rule send_email_gmail_returns)
next
  fix e
  assume "\<forall>m. out (log_failed m) = None"
  then show "fst (send_email_gmail out cfg env a s t h) \<noteq> Inl e"
    by (simp add: send_email_gmail_returns)
next
  fix e
  assume "fst (send_email_gmail out cfg env a s t h) = Inl e"
  then show "\<exists>m m'. out (log_failed m) = Some m' \<and> e = Exception m'"
    by (rule send_email_gmail_raises)
next
  show "prefix (filter is_network (snd (send_email_gmail out cfg env a s t h)))
     [SMTP_connect ''smtp.gmail.com'' 587 10, SMTP_starttls,
      SMTP_login (GMAIL_USER cfg) (GMAIL_APP_PASSWORD cfg),
      SMTP_send_message (build_message cfg a s t h), SMTP_quit]"
    using send_email_gmail_network [of out cfg env a s t h] by (rule conjunct1)
next
  show "distinct (filter is_network (snd (send_email_gmail out cfg env a s t h)))"
    using send_email_gmail_network [of out cfg env a s t h] by (rule conjunct2)
qed

theorem C6_dispatcher_failures_to_False_witness:
  "send_email_gmail (\<lambda>line. None)
     \<lparr>GMAIL_USER = Some ''me@gmail.com'', GMAIL_APP_PASSWORD = None\<rparr>
     \<lparr>mime = \<lambda>m. None, connect = \<lambda>h p t. None, starttls = None,
      login = \<lambda>u p. Some ''auth failed'', send_message = \<lambda>m. None, quit = None\<rparr>
     ''a@b.com'' ''S'' ''T'' ''H''
   = (Inr False,
      [SMTP_connect ''smtp.gmail.com'' 587 10, SMTP_starttls,
       SMTP_login (Some ''me@gmail.com'') None,
       Print ([CHR 0xE2, CHR 0x9D, CHR 0x8C] @ '' Failed to send email: auth failed'')])"
proof -
  let ?out = "(\<lambda>line. None) :: stdout"
  let ?cfg = "\<lparr>GMAIL_USER = Some ''me@gmail.com'', GMAIL_APP_PASSWORD = None\<rparr>"
  let ?env = "\<lparr>mime = \<lambda>m. None, connect = \<lambda>h p t. None, starttls = None,
      login = \<lambda>u p. Some ''auth failed'', send_message = \<lambda>m. None, quit = None\<rparr>"
  have printed: "\<forall>m. ?out (log_failed m) = None" by simp
  note T = C6_dispatcher_failures_to_False [of ?out ?cfg ?env "''a@b.com''" "''S''" "''T''" "''H''"]
  have "fst (send_email_gmail ?out ?cfg ?env ''a@b.com'' ''S'' ''T'' ''H'') =
        Inr (mime ?env (build_message ?cfg ''a@b.com'' ''S'' ''T'' ''H'') = None
             \<and> connect ?env ''smtp.gmail.com'' 587 10 = None
             \<and> starttls ?env = None
             \<and> login ?env (GMAIL_USER ?cfg) (GMAIL_APP_PASSWORD ?cfg) = None
             \<and> send_message ?env (build_message ?cfg ''a@b.com'' ''S'' ''T'' ''H'') = None
             \<and> quit ?env = None
             \<and> ?out (log_sent ''a@b.com'') = None)"
    using T [THEN conjunct1, THEN mp, OF printed] by (rule conjunct1)
  then have "fst (send_email_gmail ?out ?cfg ?env ''a@b.com'' ''S'' ''T'' ''H'') = Inr False"
    by simp
  moreover have "snd (send_email_gmail ?out ?cfg ?env ''a@b.com'' ''S'' ''T'' ''H'')
   = [SMTP_connect ''smtp.gmail.com'' 587 10, SMTP_starttls,
       SMTP_login (Some ''me@gmail.com'') None,
       Print ([CHR 0xE2, CHR 0x9D, CHR 0x8C] @ '' Failed to send email: auth failed'')]"
    by (simp add: send_email_gmail_def send_email_gmail_try_def log_failed_def Let_def)
  ultimately show ?thesis by (simp add: prod_eq_iff)
qed

theorem C6_failure_print_raises_counterexample:
  "fst (send_email_gmail (\<lambda>line. Some ''Broken pipe'')
     \<lparr>GMAIL_USER = Some ''me@gmail.com'', GMAIL_APP_PASSWORD = Some ''secret''\<rparr>
     \<lparr>mime = \<lambda>m. None, connect = \<lambda>h p t. Some ''Connection refused'', starttls = None,
      login = \<lambda>u p. None, send_message = \<lambda>m. None, quit = None\<rparr>
     ''a@b.com'' ''S'' ''T'' ''H'')
   = Inl (Exception ''Broken pipe'')"
  by (simp add: send_email_gmail_def send_email_gmail_try_def Let_def)

lemma email_content_invalid_iff:
  "email_content request =
     Inl (HTTPException 400
            (''Invalid email_type: '' @ email_type request
             @ ''. Must be 'verification', 'password_reset', or 'custom'' @ [CHR 0x27]))
   \<longleftrightarrow> \<not> email_type_Literal (email_type request)"
  by (simp add: email_content_def email_type_Literal_def Let_def)

lemma validate_request_Literal:
  "validate_request email_str b = Some request \<Longrightarrow> email_type_Literal (email_type request)"
  by (auto simp add: validate_request_def split: option.splits if_splits)

text \<open>
  Claim C8, as amended. For a request whose \<open>email_type\<close> satisfies the \<open>Literal\<close>
  type the handler's last \<open>else\<close> branch is not taken; every request that passes schema
  validation satisfies it; and a body whose \<open>email_type\<close> does not is answered by the
  framework's validation error, with no effect of the handler. The status of that answer
  is the framework's, not a 400 set by this code: with the framework's usual 422 the
  response is not a 400 (the counterexample).
\<close>

theorem C8_invalid_type_stopped_by_schema:
  "(email_type_Literal (email_type request) \<longrightarrow>
      email_content request \<noteq>
        Inl (HTTPException 400
               (''Invalid email_type: '' @ email_type request
                @ ''. Must be 'verification', 'password_reset', or 'custom'' @ [CHR 0x27])))
 \<and> (validate_request email_str b = Some request \<longrightarrow> email_type_Literal (email_type request))
 \<and> (\<not> email_type_Literal (email_type b) \<longrightarrow>
      endpoint validation_status email_str out send b =
        (\<lparr>status = validation_status, content = Validation_errors\<rparr>, []))"
proof (intro conjI impI)
  assume "email_type_Literal (email_type request)"
  then show "email_content request \<noteq>
        Inl (HTTPException 400
               (''Invalid email_type: '' @ email_type request
                @ ''. Must be 'verification', 'password_reset', or 'custom'' @ [CHR 0x27]))"
    by (simp only: email_content_invalid_iff not_not)
next
  assume "validate_request email_str b = Some request"
  then show "email_type_Literal (email_type request)"
    by (rule validate_request_Literal)
next
  assume "\<not> email_type_Literal (email_type b)"
  then have "validate_request email_str b = None"
    by (simp add: validate_request_def split: option.splits)
  then show "endpoint validation_status email_str out send b =
        (\<lparr>status = validation_status, content = Validation_errors\<rparr>, [])"
    by (simp add: endpoint_def)
qed

theorem C8_invalid_type_stopped_by_schema_witness:
  "email_content \<lparr>to_email = ''a@b.com'', email_type = ''custom'', subject = None,
                  text_content = None, html_content = None\<rparr> \<noteq>
     Inl (HTTPException 400
            (''Invalid email_type: '' @ ''custom''
             @ ''. Must be 'verification', 'password_reset', or 'custom'' @ [CHR 0x27]))
 \<and> email_type_Literal ''verification''
 \<and> endpoint 422 Some (\<lambda>line. None) (\<lambda>a s t h. Inr True)
      \<lparr>to_email = ''a@b.com'', email_type = ''newsletter'', subject = None,
       text_content = None, html_content = None\<rparr>
    = (\<lparr>status = 422, content = Validation_errors\<rparr>, [])"
proof -
  let ?custom = "\<lparr>to_email = ''a@b.com'', email_type = ''custom'', subject = None,
                  text_content = None, html_content = None\<rparr>"
  let ?verif = "\<lparr>to_email = ''a@b.com'', email_type = ''verification'', subject = None,
                 text_content = None, html_content = None\<rparr>"
  let ?news = "\<lparr>to_email = ''a@b.com'', email_type = ''newsletter'', subject = None,
                text_content = None, html_content = None\<rparr>"
  let ?send = "\<lambda>a s t h. Inr True :: exn + bool"
  let ?out = "(\<lambda>line. None) :: stdout"
  have lit_custom: "email_type_Literal (email_type ?custom)"
    by (simp add: email_type_Literal_def)
  have lit_verif: "email_type_Literal (email_type ?verif)"
    by (simp add: email_type_Literal_def)
  have not_lit: "\<not> email_type_Literal (email_type ?news)"
    by (simp add: email_type_Literal_def)
  have valid: "validate_request Some ?verif = Some ?verif"
    using lit_verif by (simp add: validate_request_def)
  note T1 = C8_invalid_type_stopped_by_schema [of ?custom Some ?verif 422 ?out ?send]
  note T2 = C8_invalid_type_stopped_by_schema [of ?verif Some ?verif 422 ?out ?send]
  note T3 = C8_invalid_type_stopped_by_schema [of ?custom Some ?news 422 ?out ?send]
  have c1: "email_content ?custom \<noteq>
     Inl (HTTPException 400
            (''Invalid email_type: '' @ email_type ?custom
             @ ''. Must be 'verification', 'password_reset', or 'custom'' @ [CHR 0x27]))"
    using T1 [THEN conjunct1] lit_custom by (rule mp)
  have c2: "email_type_Literal (email_type ?verif)"
    using T2 [THEN conjunct2, THEN conjunct1] valid by (rule mp)
  have c3: "endpoint 422 Some ?out ?send ?news = (\<lparr>status = 422, content = Validation_errors\<rparr>, [])"
    using T3 [THEN conjunct2, THEN conjunct2] not_lit by (rule mp)
  from c1 c2 c3 show ?thesis by simp
qed

theorem C8_schema_status_counterexample:
  "status (fst (endpoint 422 Some (\<lambda>line. None) (\<lambda>a s t h. Inr True)
      \<lparr>to_email = ''a@b.com'', email_type = ''newsletter'', subject = None,
       text_content = None, html_content = None\<rparr>)) \<noteq> 400"
  by (simp add: endpoint_def validate_request_def email_type_Literal_def)

end
